theory Spec2Isabelle
  imports Main "HOL-Library.Word" "HOL-Library.Sublist"
begin

section \<open>The Battlesnake move selector of \<^verbatim>\<open>main.go\<close>\<close>

text \<open>
  The decision core of the server is \<^verbatim>\<open>makeMove\<close> with its helpers \<^verbatim>\<open>validMoves\<close>,
  \<^verbatim>\<open>isValid\<close>, \<^verbatim>\<open>isEdge\<close>, \<^verbatim>\<open>isSnake\<close>, \<^verbatim>\<open>randomMove\<close> (and the unused \<^verbatim>\<open>isFood\<close>).
  Each is embedded below under its own name.

  Go's \<^verbatim>\<open>int\<close> is a 64-bit two's-complement integer on the usual targets; its \<^verbatim>\<open>+\<close> and
  \<^verbatim>\<open>-\<close> wrap around and its comparisons are signed. Coordinates and board dimensions come
  from the decoded request and are arbitrary 64-bit values, so they are \<open>64 word\<close> here,
  compared with \<open><s\<close>. \<^verbatim>\<open>int32\<close> fields are \<open>32 word\<close>. Slice lengths and indices are
  small non-negative numbers that cannot wrap; they are \<open>int\<close>.
\<close>

subsection \<open>Data model\<close>

type_synonym go_int = "64 word"
type_synonym go_int32 = "32 word"

record Game =
  ID :: string
  Timeout :: go_int32

record Coord =
  X :: go_int
  Y :: go_int

record Battlesnake =
  ID :: string
  Name :: string
  Health :: go_int32
  Body :: "Coord list"
  Head :: Coord
  Length :: go_int32
  Shout :: string

record Board =
  Height :: go_int
  Width :: go_int
  Food :: "Coord list"
  Snakes :: "Battlesnake list"

record GameRequest =
  Game :: Game
  Turn :: go_int
  Board :: Board
  You :: Battlesnake

record MoveResponse =
  Move :: string
  Shout :: string

subsection \<open>Runtime panics, slices and the random generator\<close>

text \<open>
  The two ways the code of \<^verbatim>\<open>makeMove\<close> could panic: \<^verbatim>\<open>rand.Intn(n)\<close> with \<open>n \<le> 0\<close>, and an
  index outside a slice.
\<close>

datatype panic = IntnInvalidArgument | IndexOutOfRange

definition len :: "'a list \<Rightarrow> int" where
  "len xs = int (length xs)"

definition index :: "'a list \<Rightarrow> int \<Rightarrow> panic + 'a" where
  "index xs i = (if 0 \<le> i \<and> i < len xs then Inr (xs ! nat i) else Inl IndexOutOfRange)"

text \<open>
  \<^verbatim>\<open>math/rand\<close>'s \<^verbatim>\<open>Intn(n)\<close> returns a number in the half-open interval \<open>[0, n)\<close> drawn from
  the process-wide generator, and panics when \<open>n \<le> 0\<close>. The generator is the one hidden
  input of the decision; it is made explicit as the natural number \<open>r\<close> it delivers to the
  call, reduced into the interval. Every value of \<open>[0, n)\<close> arises from some \<open>r\<close>, and
  nothing else does (\<open>Intn_range\<close> below).
\<close>

definition Intn :: "nat \<Rightarrow> int \<Rightarrow> panic + int" where
  "Intn r n = (if n \<le> 0 then Inl IntnInvalidArgument else Inr (int r mod n))"

subsection \<open>The safety filter\<close>

definition isEdge :: "Coord \<Rightarrow> Board \<Rightarrow> bool" where
  "isEdge pos board \<longleftrightarrow>
     Width board - 1 <s X pos \<or> Height board + 1 <s Y pos \<or> X pos <s 0 \<or> Y pos <s 0"

text \<open>The \<^verbatim>\<open>range\<close> loop of \<^verbatim>\<open>isFood\<close> over \<^verbatim>\<open>board.Food\<close>, returning at the first hit.\<close>

fun isFood_range :: "Coord \<Rightarrow> Coord list \<Rightarrow> bool" where
  "isFood_range pos [] = False"
| "isFood_range pos (coord # rest) =
     (if Y coord = Y pos \<and> X coord = X pos then True else isFood_range pos rest)"

definition isFood :: "Coord \<Rightarrow> Board \<Rightarrow> bool" where
  "isFood pos board = isFood_range pos (Food board)"

text \<open>The inner loop of \<^verbatim>\<open>isSnake\<close> over one snake's \<^verbatim>\<open>Body\<close>.\<close>

fun isSnake_body :: "Coord \<Rightarrow> Coord list \<Rightarrow> bool" where
  "isSnake_body pos [] = False"
| "isSnake_body pos (coord # rest) =
     (if Y coord = Y pos \<and> X coord = X pos then True else isSnake_body pos rest)"

text \<open>The outer loop over \<^verbatim>\<open>board.Snakes\<close>: the body first, then the head field.\<close>

fun isSnake_range :: "Coord \<Rightarrow> Battlesnake list \<Rightarrow> bool" where
  "isSnake_range pos [] = False"
| "isSnake_range pos (snake # rest) =
     (if isSnake_body pos (Body snake) then True
      else if Y (Head snake) = Y pos \<and> X (Head snake) = X pos then True
      else isSnake_range pos rest)"

definition isSnake :: "Coord \<Rightarrow> Board \<Rightarrow> bool" where
  "isSnake pos board = isSnake_range pos (Snakes board)"

definition isValid :: "Coord \<Rightarrow> Board \<Rightarrow> bool" where
  "isValid pos board \<longleftrightarrow> \<not> isEdge pos board \<and> \<not> isSnake pos board"

text \<open>\<^verbatim>\<open>validMoves\<close> starts from the nil slice and appends in the order left, right, down, up.\<close>

definition validMoves :: "Coord \<Rightarrow> Board \<Rightarrow> string list" where
  "validMoves pos board =
     (let moves0 = [];
          left = \<lparr>X = X pos - 1, Y = Y pos\<rparr>;
          moves1 = (if isValid left board then moves0 @ [''left''] else moves0);
          right = \<lparr>X = X pos + 1, Y = Y pos\<rparr>;
          moves2 = (if isValid right board then moves1 @ [''right''] else moves1);
          down = \<lparr>X = X pos, Y = Y pos + 1\<rparr>;
          moves3 = (if isValid down board then moves2 @ [''down''] else moves2);
          up = \<lparr>X = X pos, Y = Y pos - 1\<rparr>;
          moves4 = (if isValid up board then moves3 @ [''up''] else moves3)
      in moves4)"

subsection \<open>Move selection\<close>

text \<open>
  A composite literal \<^verbatim>\<open>MoveResponse{Move: m}\<close> leaves \<^verbatim>\<open>Shout\<close> at the zero value of
  \<^verbatim>\<open>string\<close>, the empty string.
\<close>

definition randomMove :: "nat \<Rightarrow> panic + MoveResponse" where
  "randomMove r =
     (let possibleMoves = [''up'', ''down'', ''left'', ''right''] in
      case Intn r (len possibleMoves) of
        Inl p \<Rightarrow> Inl p
      | Inr i \<Rightarrow>
          (case index possibleMoves i of
             Inl p \<Rightarrow> Inl p
           | Inr move \<Rightarrow> Inr \<lparr>Move = move, Shout = ''''\<rparr>))"

definition makeMove :: "nat \<Rightarrow> GameRequest \<Rightarrow> panic + MoveResponse" where
  "makeMove r game =
     (let possibleMoves = validMoves (Head (You game)) (Board game) in
      if len possibleMoves = 0 then randomMove r
      else
        case Intn r (len possibleMoves) of
          Inl p \<Rightarrow> Inl p
        | Inr i \<Rightarrow>
            (case index possibleMoves i of
               Inl p \<Rightarrow> Inl p
             | Inr move \<Rightarrow> Inr \<lparr>Move = move, Shout = ''''\<rparr>))"

text \<open>
  \<^verbatim>\<open>HandleMove\<close> hands the response to \<^verbatim>\<open>encoding/json\<close>. With the struct tags
  \<^verbatim>\<open>json:"move"\<close> and \<^verbatim>\<open>json:"shout,omitempty"\<close> the encoder emits the key \<^verbatim>\<open>move\<close> always
  and the key \<^verbatim>\<open>shout\<close> only when the field is not the empty string. The emitted object
  is modelled as its list of key/value pairs.
\<close>

definition MoveResponse_json :: "MoveResponse \<Rightarrow> (string \<times> string) list" where
  "MoveResponse_json resp =
     [(''move'', Move resp)] @
     (if MoveResponse.Shout resp = '''' then [] else [(''shout'', MoveResponse.Shout resp)])"

subsection \<open>Example requests\<close>

text \<open>
  Concrete requests and boards on which the theorems below are exercised. The agent's head
  is at \<open>(5, 5)\<close> unless said otherwise.
\<close>

definition me :: "Coord list \<Rightarrow> Battlesnake" where
  "me body = \<lparr>Battlesnake.ID = ''me'', Name = ''agent'', Health = 90, Body = body,
     Head = \<lparr>X = 5, Y = 5\<rparr>, Length = 3, Shout = ''''\<rparr>"

text \<open>An opponent lying on the right and upper neighbours of \<open>(5, 5)\<close>.\<close>

definition opponent :: Battlesnake where
  "opponent = \<lparr>Battlesnake.ID = ''other'', Name = ''opponent'', Health = 80,
     Body = [\<lparr>X = 6, Y = 5\<rparr>, \<lparr>X = 6, Y = 4\<rparr>, \<lparr>X = 5, Y = 4\<rparr>],
     Head = \<lparr>X = 6, Y = 5\<rparr>, Length = 3, Shout = ''''\<rparr>"

text \<open>Scenario C of the specification: an 11 by 11 board, the agent and that opponent.\<close>

definition scenario_C_board :: Board where
  "scenario_C_board = \<lparr>Height = 11, Width = 11, Food = [],
     Snakes = [me [\<lparr>X = 5, Y = 5\<rparr>], opponent]\<rparr>"

text \<open>Scenario D: the head is enclosed by the agent's own body and the opponent.\<close>

definition boxed_request :: GameRequest where
  "boxed_request = \<lparr>Game = \<lparr>Game.ID = ''g1'', Timeout = 500\<rparr>, Turn = 12,
     Board = \<lparr>Height = 11, Width = 11, Food = [],
       Snakes = [me [\<lparr>X = 5, Y = 5\<rparr>, \<lparr>X = 5, Y = 6\<rparr>, \<lparr>X = 4, Y = 6\<rparr>, \<lparr>X = 4, Y = 5\<rparr>], opponent]\<rparr>,
     You = me [\<lparr>X = 5, Y = 5\<rparr>, \<lparr>X = 5, Y = 6\<rparr>, \<lparr>X = 4, Y = 6\<rparr>, \<lparr>X = 4, Y = 5\<rparr>]\<rparr>"

text \<open>A different board with no way out: the head in the corner \<open>(0, 0)\<close> of a 7 by 7 board.\<close>

definition cornered_request :: GameRequest where
  "cornered_request = \<lparr>Game = \<lparr>Game.ID = ''g2'', Timeout = 500\<rparr>, Turn = 40,
     Board = \<lparr>Height = 7, Width = 7, Food = [\<lparr>X = 3, Y = 3\<rparr>],
       Snakes = [\<lparr>Battlesnake.ID = ''me'', Name = ''agent'', Health = 50, Body = [\<lparr>X = 0, Y = 0\<rparr>],
           Head = \<lparr>X = 0, Y = 0\<rparr>, Length = 1, Shout = ''''\<rparr>,
         \<lparr>Battlesnake.ID = ''other'', Name = ''opponent'', Health = 70,
           Body = [\<lparr>X = 1, Y = 0\<rparr>, \<lparr>X = 1, Y = 1\<rparr>, \<lparr>X = 0, Y = 1\<rparr>],
           Head = \<lparr>X = 1, Y = 0\<rparr>, Length = 3, Shout = ''''\<rparr>]\<rparr>,
     You = \<lparr>Battlesnake.ID = ''me'', Name = ''agent'', Health = 50, Body = [\<lparr>X = 0, Y = 0\<rparr>],
       Head = \<lparr>X = 0, Y = 0\<rparr>, Length = 1, Shout = ''''\<rparr>\<rparr>"


text \<open>
  Requests whose board lists no snake at all, while the \<^verbatim>\<open>You\<close> field carries the given
  body, health, turn and game id.
\<close>

definition unlisted_request :: "Coord list \<Rightarrow> go_int32 \<Rightarrow> go_int \<Rightarrow> string \<Rightarrow> GameRequest" where
  "unlisted_request body health turn gid = \<lparr>Game = \<lparr>Game.ID = gid, Timeout = 500\<rparr>, Turn = turn,
     Board = \<lparr>Height = 11, Width = 11, Food = [], Snakes = []\<rparr>,
     You = (me body)\<lparr>Health := health, Length := word_of_nat (length body)\<rparr>\<rparr>"

section \<open>Auxiliary facts\<close>

subsection \<open>The library model\<close>

lemma Intn_range: "0 < n \<Longrightarrow> (\<exists>r. Intn r n = Inr k) \<longleftrightarrow> 0 \<le> k \<and> k < n"
proof
  assume n: "0 < n" and "\<exists>r. Intn r n = Inr k"
  then obtain r where "k = int r mod n" by (auto simp: Intn_def)
  with n show "0 \<le> k \<and> k < n" by simp
next
  assume n: "0 < n" and k: "0 \<le> k \<and> k < n"
  then have "Intn (nat k) n = Inr k" by (simp add: Intn_def)
  then show "\<exists>r. Intn r n = Inr k" ..
qed

lemma Intn_in_range: "0 < n \<Longrightarrow> \<exists>i. Intn r n = Inr i \<and> 0 \<le> i \<and> i < n"
  by (simp add: Intn_def)

lemma index_in_range:
  "0 \<le> i \<Longrightarrow> i < len xs \<Longrightarrow> index xs i = Inr (xs ! nat i) \<and> xs ! nat i \<in> set xs"
  by (simp add: index_def len_def)

subsection \<open>Signed 64-bit arithmetic without wrap-around\<close>

lemma sint_succ_no_wrap:
  fixes h :: go_int
  assumes "sint h < 2 ^ 63 - 1"
  shows "sint (h + 1) = sint h + 1"
proof -
  have lo: "- (2 ^ 63) \<le> sint h" using sint_ge [of h] by simp
  have "sint (h + 1) = signed_take_bit 63 (sint h + 1)"
    by (simp add: sint_word_ariths)
  also have "\<dots> = sint h + 1"
    using lo assms by (intro signed_take_bit_int_eq_self) simp_all
  finally show ?thesis .
qed

lemma sint_pred_no_wrap:
  fixes w :: go_int
  assumes "- (2 ^ 63) < sint w"
  shows "sint (w - 1) = sint w - 1"
proof -
  have hi: "sint w < 2 ^ 63" using sint_lt [of w] by simp
  have "sint (w - 1) = signed_take_bit 63 (sint w - 1)"
    by (simp add: sint_word_ariths)
  also have "\<dots> = sint w - 1"
    using hi assms by (intro signed_take_bit_int_eq_self) simp_all
  finally show ?thesis .
qed

subsection \<open>The loops as membership tests\<close>

lemma isSnake_body_iff: "isSnake_body pos body \<longleftrightarrow> pos \<in> set body"
  by (induction body) auto

lemma isFood_range_iff: "isFood_range pos food \<longleftrightarrow> pos \<in> set food"
  by (induction food) auto

lemma isSnake_range_iff:
  "isSnake_range pos snakes \<longleftrightarrow> (\<exists>s \<in> set snakes. pos \<in> set (Body s) \<or> Head s = pos)"
  by (induction snakes) (auto simp: isSnake_body_iff)

lemma isSnake_iff:
  "isSnake pos board \<longleftrightarrow> (\<exists>s \<in> set (Snakes board). pos \<in> set (Body s) \<or> Head s = pos)"
  by (simp add: isSnake_def isSnake_range_iff)


lemma isEdge_sint:
  assumes "- (2 ^ 63) < sint (Width board)" and "sint (Height board) < 2 ^ 63 - 1"
  shows "isEdge pos board \<longleftrightarrow>
     sint (Width board) - 1 < sint (X pos) \<or> sint (X pos) < 0 \<or> sint (Y pos) < 0 \<or>
     sint (Height board) + 1 < sint (Y pos)"
  using assms
  by (auto simp: isEdge_def word_sless_alt sint_succ_no_wrap sint_pred_no_wrap)

lemma isValid_Food: "isValid c (board\<lparr>Food := food\<rparr>) = isValid c board"
  by (simp add: isValid_def isEdge_def isSnake_def)

subsection \<open>\<^verbatim>\<open>validMoves\<close> as a filter of the four candidates\<close>

lemma validMoves_filter:
  "validMoves pos board =
     map fst (filter (\<lambda>(direction, target). isValid target board)
       [(''left'', \<lparr>X = X pos - 1, Y = Y pos\<rparr>),
        (''right'', \<lparr>X = X pos + 1, Y = Y pos\<rparr>),
        (''down'', \<lparr>X = X pos, Y = Y pos + 1\<rparr>),
        (''up'', \<lparr>X = X pos, Y = Y pos - 1\<rparr>)])"
  by (simp add: validMoves_def Let_def)

lemma validMoves_subseq: "subseq (validMoves pos board) [''left'', ''right'', ''down'', ''up'']"
  by (simp add: validMoves_def Let_def)

lemma validMoves_set: "set (validMoves pos board) \<subseteq> {''left'', ''right'', ''down'', ''up''}"
  by (auto simp: validMoves_def Let_def)

lemma validMoves_distinct: "distinct (validMoves pos board)"
  by (simp add: validMoves_def Let_def)

lemma validMoves_length: "length (validMoves pos board) \<le> 4"
  by (simp add: validMoves_def Let_def)

lemma validMoves_Food: "validMoves pos (board\<lparr>Food := food\<rparr>) = validMoves pos board"
  by (simp add: validMoves_def isValid_Food)

subsection \<open>The two branches of \<^verbatim>\<open>makeMove\<close>\<close>

lemma randomMove_result:
  "\<exists>i. Intn r 4 = Inr i \<and> 0 \<le> i \<and> i < 4 \<and>
       randomMove r = Inr \<lparr>Move = [''up'', ''down'', ''left'', ''right''] ! nat i, Shout = ''''\<rparr> \<and>
       [''up'', ''down'', ''left'', ''right''] ! nat i \<in> {''up'', ''down'', ''left'', ''right''}"
proof -
  let ?all = "[''up'', ''down'', ''left'', ''right'']"
  obtain i where i: "Intn r 4 = Inr i" "0 \<le> i" "i < 4"
    using Intn_in_range [of 4 r] by auto
  have l: "len ?all = 4" by (simp add: len_def)
  from i l have ix: "index ?all i = Inr (?all ! nat i)" and mem: "?all ! nat i \<in> set ?all"
    using index_in_range [of i ?all] by simp_all
  from i l ix have "randomMove r = Inr \<lparr>Move = ?all ! nat i, Shout = ''''\<rparr>"
    by (simp add: randomMove_def)
  with i mem show ?thesis by auto
qed

lemma makeMove_empty:
  "validMoves (Head (You game)) (Board game) = [] \<Longrightarrow> makeMove r game = randomMove r"
  by (simp add: makeMove_def len_def)

lemma makeMove_nonempty:
  assumes "validMoves (Head (You game)) (Board game) \<noteq> []"
  shows "\<exists>i. Intn r (len (validMoves (Head (You game)) (Board game))) = Inr i \<and> 0 \<le> i \<and>
           i < len (validMoves (Head (You game)) (Board game)) \<and>
           makeMove r game =
             Inr \<lparr>Move = validMoves (Head (You game)) (Board game) ! nat i, Shout = ''''\<rparr> \<and>
           validMoves (Head (You game)) (Board game) ! nat i
             \<in> set (validMoves (Head (You game)) (Board game))"
proof -
  let ?ms = "validMoves (Head (You game)) (Board game)"
  from assms have pos: "0 < len ?ms" by (simp add: len_def)
  then obtain i where i: "Intn r (len ?ms) = Inr i" "0 \<le> i" "i < len ?ms"
    using Intn_in_range [of "len ?ms" r] by auto
  then have ix: "index ?ms i = Inr (?ms ! nat i)" and mem: "?ms ! nat i \<in> set ?ms"
    using index_in_range [of i ?ms] by simp_all
  from pos i ix have "makeMove r game = Inr \<lparr>Move = ?ms ! nat i, Shout = ''''\<rparr>"
    by (simp add: makeMove_def Let_def)
  with i mem show ?thesis by auto
qed

lemma makeMove_total:
  "\<exists>resp. makeMove r game = Inr resp \<and> Move resp \<in> {''up'', ''down'', ''left'', ''right''} \<and>
     MoveResponse.Shout resp = ''''"
proof (cases "validMoves (Head (You game)) (Board game) = []")
  case True
  then have "makeMove r game = randomMove r" by (rule makeMove_empty)
  with randomMove_result [of r] show ?thesis by auto
next
  case False
  from makeMove_nonempty [OF False, of r] validMoves_set [of "Head (You game)" "Board game"]
  show ?thesis by auto
qed

subsection \<open>Evaluation of the examples\<close>

lemmas eval_defs = me_def opponent_def validMoves_def isValid_def isEdge_def isSnake_def
  word_sless_alt Let_def

section \<open>The claims\<close>

subsection \<open>C1: the safety filter\<close>

text \<open>
  Claim C1. For every board and head position, a direction is in the list returned by
  \<^verbatim>\<open>validMoves\<close> if and only if the coordinate one unit from the head in that direction is
  not rejected by \<^verbatim>\<open>isEdge\<close> and not occupied according to \<^verbatim>\<open>isSnake\<close>; nothing but the
  four directions is ever returned; and \<^verbatim>\<open>isSnake\<close> holds of exactly the coordinates that
  are a body segment or the head field of some snake of the board. The offsets are Go's
  \<^verbatim>\<open>pos.X - 1\<close>, \<^verbatim>\<open>pos.X + 1\<close>, \<^verbatim>\<open>pos.Y + 1\<close>, \<^verbatim>\<open>pos.Y - 1\<close>.
\<close>

theorem validMoves_safety_filter:
  "(''left'' \<in> set (validMoves pos board) \<longleftrightarrow>
      \<not> isEdge \<lparr>X = X pos - 1, Y = Y pos\<rparr> board \<and> \<not> isSnake \<lparr>X = X pos - 1, Y = Y pos\<rparr> board) \<and>
   (''right'' \<in> set (validMoves pos board) \<longleftrightarrow>
      \<not> isEdge \<lparr>X = X pos + 1, Y = Y pos\<rparr> board \<and> \<not> isSnake \<lparr>X = X pos + 1, Y = Y pos\<rparr> board) \<and>
   (''down'' \<in> set (validMoves pos board) \<longleftrightarrow>
      \<not> isEdge \<lparr>X = X pos, Y = Y pos + 1\<rparr> board \<and> \<not> isSnake \<lparr>X = X pos, Y = Y pos + 1\<rparr> board) \<and>
   (''up'' \<in> set (validMoves pos board) \<longleftrightarrow>
      \<not> isEdge \<lparr>X = X pos, Y = Y pos - 1\<rparr> board \<and> \<not> isSnake \<lparr>X = X pos, Y = Y pos - 1\<rparr> board) \<and>
   set (validMoves pos board) \<subseteq> {''left'', ''right'', ''down'', ''up''} \<and>
   (isSnake c board \<longleftrightarrow> c \<in> (\<Union>s \<in> set (Snakes board). set (Body s) \<union> {Head s}))"
proof (intro conjI)
  show "''left'' \<in> set (validMoves pos board) \<longleftrightarrow>
      \<not> isEdge \<lparr>X = X pos - 1, Y = Y pos\<rparr> board \<and> \<not> isSnake \<lparr>X = X pos - 1, Y = Y pos\<rparr> board"
    by (simp add: validMoves_filter isValid_def)
  show "''right'' \<in> set (validMoves pos board) \<longleftrightarrow>
      \<not> isEdge \<lparr>X = X pos + 1, Y = Y pos\<rparr> board \<and> \<not> isSnake \<lparr>X = X pos + 1, Y = Y pos\<rparr> board"
    by (simp add: validMoves_filter isValid_def)
  show "''down'' \<in> set (validMoves pos board) \<longleftrightarrow>
      \<not> isEdge \<lparr>X = X pos, Y = Y pos + 1\<rparr> board \<and> \<not> isSnake \<lparr>X = X pos, Y = Y pos + 1\<rparr> board"
    by (simp add: validMoves_filter isValid_def)
  show "''up'' \<in> set (validMoves pos board) \<longleftrightarrow>
      \<not> isEdge \<lparr>X = X pos, Y = Y pos - 1\<rparr> board \<and> \<not> isSnake \<lparr>X = X pos, Y = Y pos - 1\<rparr> board"
    by (simp add: validMoves_filter isValid_def)
  show "set (validMoves pos board) \<subseteq> {''left'', ''right'', ''down'', ''up''}"
    by (rule validMoves_set)
  show "isSnake c board \<longleftrightarrow> c \<in> (\<Union>s \<in> set (Snakes board). set (Body s) \<union> {Head s})"
    by (auto simp: isSnake_iff)
qed

subsection \<open>C2: the bounds rule\<close>

text \<open>
  Claim C2 says that the bounds check rejects \<open>(x, y)\<close> exactly when \<open>x > w - 1\<close>, \<open>x < 0\<close>,
  \<open>y < 0\<close> or \<open>y > h + 1\<close>, and that in particular \<open>y = h\<close> and \<open>y = h + 1\<close> are accepted.
  The sum \<^verbatim>\<open>board.Height + 1\<close> is a 64-bit addition. For the largest height it wraps around
  to the smallest integer, and the check then rejects the row \<open>y = h\<close> of a column that is in
  range: the claim fails there.
\<close>

theorem isEdge_wrap_counterexample:
  "isEdge \<lparr>X = 0, Y = 9223372036854775807\<rparr>
     \<lparr>Height = 9223372036854775807, Width = 1, Food = [], Snakes = []\<rparr>"
  by (simp add: isEdge_def)

text \<open>
  Claim C2, amended. In Go's own arithmetic the check rejects exactly when \<open>x > w - 1\<close>,
  \<open>x < 0\<close>, \<open>y < 0\<close> or \<open>y > h + 1\<close>. When \<open>w - 1\<close> and \<open>h + 1\<close> do not wrap around
  (\<open>w > -2\<^sup>6\<^sup>3\<close> and \<open>h < 2\<^sup>6\<^sup>3 - 1\<close>) this is the same rule over the integers. In particular,
  when \<open>0 \<le> h < 2\<^sup>6\<^sup>3 - 1\<close> and \<open>x\<close> passes the two tests on \<open>x\<close>, the coordinates with
  \<open>y = h\<close> and with \<open>y = h + 1\<close> are accepted.
\<close>

theorem isEdge_rule_no_wrap:
  "(isEdge pos board \<longleftrightarrow>
      Width board - 1 <s X pos \<or> X pos <s 0 \<or> Y pos <s 0 \<or> Height board + 1 <s Y pos) \<and>
   (- (2 ^ 63) < sint (Width board) \<longrightarrow> sint (Height board) < 2 ^ 63 - 1 \<longrightarrow>
      (isEdge pos board \<longleftrightarrow>
         sint (Width board) - 1 < sint (X pos) \<or> sint (X pos) < 0 \<or> sint (Y pos) < 0 \<or>
         sint (Height board) + 1 < sint (Y pos))) \<and>
   (sint (Height board) < 2 ^ 63 - 1 \<longrightarrow> 0 \<le> sint (Height board) \<longrightarrow>
      \<not> Width board - 1 <s X pos \<longrightarrow> \<not> X pos <s 0 \<longrightarrow>
      Y pos = Height board \<or> Y pos = Height board + 1 \<longrightarrow> \<not> isEdge pos board)"
proof (intro conjI impI)
  show "isEdge pos board \<longleftrightarrow>
      Width board - 1 <s X pos \<or> X pos <s 0 \<or> Y pos <s 0 \<or> Height board + 1 <s Y pos"
    by (auto simp: isEdge_def)
next
  assume "- (2 ^ 63) < sint (Width board)" and "sint (Height board) < 2 ^ 63 - 1"
  then show "isEdge pos board \<longleftrightarrow>
         sint (Width board) - 1 < sint (X pos) \<or> sint (X pos) < 0 \<or> sint (Y pos) < 0 \<or>
         sint (Height board) + 1 < sint (Y pos)"
    by (rule isEdge_sint)
next
  assume h: "sint (Height board) < 2 ^ 63 - 1" and h0: "0 \<le> sint (Height board)"
    and x: "\<not> Width board - 1 <s X pos" "\<not> X pos <s 0"
    and y: "Y pos = Height board \<or> Y pos = Height board + 1"
  have succ: "sint (Height board + 1) = sint (Height board) + 1"
    using h by (rule sint_succ_no_wrap)
  from y have "sint (Y pos) = sint (Height board) \<or> sint (Y pos) = sint (Height board) + 1"
    using succ by auto
  with h0 succ have "\<not> Y pos <s 0" and "\<not> Height board + 1 <s Y pos"
    by (auto simp: word_sless_alt)
  with x show "\<not> isEdge pos board" by (simp add: isEdge_def)
qed

theorem isEdge_rule_no_wrap_witness:
  "- (2 ^ 63) < sint (11 :: go_int) \<and> sint (11 :: go_int) < 2 ^ 63 - 1 \<and>
   \<not> isEdge \<lparr>X = 10, Y = 11\<rparr> \<lparr>Height = 11, Width = 11, Food = [], Snakes = []\<rparr> \<and>
   \<not> isEdge \<lparr>X = 10, Y = 12\<rparr> \<lparr>Height = 11, Width = 11, Food = [], Snakes = []\<rparr> \<and>
   isEdge \<lparr>X = 10, Y = 13\<rparr> \<lparr>Height = 11, Width = 11, Food = [], Snakes = []\<rparr> \<and>
   isEdge \<lparr>X = 11, Y = 11\<rparr> \<lparr>Height = 11, Width = 11, Food = [], Snakes = []\<rparr>"
  using
    isEdge_rule_no_wrap [of "\<lparr>X = 10, Y = 11\<rparr>" "\<lparr>Height = 11, Width = 11, Food = [], Snakes = []\<rparr>"]
    isEdge_rule_no_wrap [of "\<lparr>X = 10, Y = 12\<rparr>" "\<lparr>Height = 11, Width = 11, Food = [], Snakes = []\<rparr>"]
    isEdge_rule_no_wrap [of "\<lparr>X = 10, Y = 13\<rparr>" "\<lparr>Height = 11, Width = 11, Food = [], Snakes = []\<rparr>"]
    isEdge_rule_no_wrap [of "\<lparr>X = 11, Y = 11\<rparr>" "\<lparr>Height = 11, Width = 11, Food = [], Snakes = []\<rparr>"]
  by (simp add: word_sless_alt)

subsection \<open>C3: a move is always returned\<close>

text \<open>
  Claim C3. For every request and every outcome of the generator, \<^verbatim>\<open>makeMove\<close> returns
  without a panic exactly one response, and its move is one of the four direction strings.
  The list that is indexed is the safe-move list when that is not empty and the fixed list
  of \<^verbatim>\<open>randomMove\<close> otherwise; in both branches \<^verbatim>\<open>rand.Intn\<close> is called with the positive
  length of that list, the index it returns is in range, and every element of the list is a
  direction string. \<^verbatim>\<open>randomMove\<close> by itself returns a direction string as well.
\<close>

theorem makeMove_returns_direction:
  "(let safe = validMoves (Head (You game)) (Board game);
        chosen_from = (if safe = [] then [''up'', ''down'', ''left'', ''right''] else safe)
    in \<exists>i resp. Intn r (len chosen_from) = Inr i \<and> 0 \<le> i \<and> i < len chosen_from \<and>
         index chosen_from i = Inr (Move resp) \<and>
         set chosen_from \<subseteq> {''up'', ''down'', ''left'', ''right''} \<and>
         makeMove r game = Inr resp \<and>
         Move resp \<in> {''up'', ''down'', ''left'', ''right''}) \<and>
   (\<exists>resp. randomMove r = Inr resp \<and> Move resp \<in> {''up'', ''down'', ''left'', ''right''})"
proof -
  let ?safe = "validMoves (Head (You game)) (Board game)"
  let ?all = "[''up'', ''down'', ''left'', ''right'']"
  have rm: "\<exists>resp. randomMove r = Inr resp \<and> Move resp \<in> {''up'', ''down'', ''left'', ''right''}"
    using randomMove_result [of r] by auto
  have "\<exists>i resp. Intn r (len (if ?safe = [] then ?all else ?safe)) = Inr i \<and> 0 \<le> i \<and>
         i < len (if ?safe = [] then ?all else ?safe) \<and>
         index (if ?safe = [] then ?all else ?safe) i = Inr (Move resp) \<and>
         set (if ?safe = [] then ?all else ?safe) \<subseteq> {''up'', ''down'', ''left'', ''right''} \<and>
         makeMove r game = Inr resp \<and>
         Move resp \<in> {''up'', ''down'', ''left'', ''right''}"
  proof (cases "?safe = []")
    case True
    obtain i where i: "Intn r 4 = Inr i" "0 \<le> i" "i < 4"
      "randomMove r = Inr \<lparr>Move = ?all ! nat i, Shout = ''''\<rparr>"
      "?all ! nat i \<in> {''up'', ''down'', ''left'', ''right''}"
      using randomMove_result [of r] by blast
    have l: "len ?all = 4" by (simp add: len_def)
    from i l have ix: "index ?all i = Inr (?all ! nat i)"
      using index_in_range [of i ?all] by simp
    from True have "makeMove r game = randomMove r" by (rule makeMove_empty)
    with True i l ix show ?thesis
      by (intro exI [of _ i] exI [of _ "\<lparr>Move = ?all ! nat i, Shout = ''''\<rparr>"]) auto
  next
    case False
    obtain i where i: "Intn r (len ?safe) = Inr i" "0 \<le> i" "i < len ?safe"
      "makeMove r game = Inr \<lparr>Move = ?safe ! nat i, Shout = ''''\<rparr>"
      "?safe ! nat i \<in> set ?safe"
      using makeMove_nonempty [OF False, of r] by blast
    then have ix: "index ?safe i = Inr (?safe ! nat i)"
      using index_in_range [of i ?safe] by simp
    have sub: "set ?safe \<subseteq> {''up'', ''down'', ''left'', ''right''}"
      using validMoves_set [of "Head (You game)" "Board game"] by auto
    with False i ix show ?thesis
      by (intro exI [of _ i] exI [of _ "\<lparr>Move = ?safe ! nat i, Shout = ''''\<rparr>"]) auto
  qed
  with rm show ?thesis by (simp add: Let_def)
qed

subsection \<open>C4: the fallback\<close>

text \<open>
  Claim C4. When the safe-move list of a request is empty, \<^verbatim>\<open>makeMove\<close> returns what
  \<^verbatim>\<open>randomMove\<close> returns. That result is one of the four direction strings and depends on
  the outcome of the generator only: two requests with empty safe-move lists get the same
  move from the same outcome, whatever their boards are.
\<close>

theorem fallback_independent_of_board:
  assumes "validMoves (Head (You g1)) (Board g1) = []"
    and "validMoves (Head (You g2)) (Board g2) = []"
  shows "makeMove r g1 = randomMove r \<and> makeMove r g2 = randomMove r \<and>
         makeMove r g1 = makeMove r g2 \<and>
         (\<exists>resp. randomMove r = Inr resp \<and> Move resp \<in> {''up'', ''down'', ''left'', ''right''})"
proof -
  have "makeMove r g1 = randomMove r" using assms(1) by (rule makeMove_empty)
  moreover have "makeMove r g2 = randomMove r" using assms(2) by (rule makeMove_empty)
  moreover have "\<exists>resp. randomMove r = Inr resp \<and> Move resp \<in> {''up'', ''down'', ''left'', ''right''}"
    using randomMove_result [of r] by auto
  ultimately show ?thesis by simp
qed

theorem fallback_independent_of_board_witness:
  "validMoves (Head (You boxed_request)) (Board boxed_request) = [] \<and>
   validMoves (Head (You cornered_request)) (Board cornered_request) = [] \<and>
   Board boxed_request \<noteq> Board cornered_request \<and>
   makeMove 6 boxed_request = Inr \<lparr>Move = ''left'', Shout = ''''\<rparr> \<and>
   makeMove 6 cornered_request = Inr \<lparr>Move = ''left'', Shout = ''''\<rparr>"
proof -
  have b: "validMoves (Head (You boxed_request)) (Board boxed_request) = []"
    by (simp add: boxed_request_def eval_defs)
  have c: "validMoves (Head (You cornered_request)) (Board cornered_request) = []"
    by (simp add: cornered_request_def eval_defs)
  have d: "Board boxed_request \<noteq> Board cornered_request"
    by (simp add: boxed_request_def cornered_request_def)
  have r: "randomMove 6 = Inr \<lparr>Move = ''left'', Shout = ''''\<rparr>"
    by (simp add: randomMove_def Intn_def index_def len_def)
  from fallback_independent_of_board [OF b c, of 6] b c d r show ?thesis by simp
qed

subsection \<open>C5: no self-bias\<close>



subsection \<open>C6: food\<close>

text \<open>
  Claim C6. Food never influences the decision. Replacing the food list of the board by
  any other list changes neither the validity of a coordinate, nor the safe-move list, nor
  (for the same outcome of the generator) the result of \<^verbatim>\<open>makeMove\<close>. \<^verbatim>\<open>isFood\<close> is not
  consulted: putting food on a coordinate or clearing all food changes the answer of
  \<^verbatim>\<open>isFood\<close> there and leaves \<^verbatim>\<open>isValid\<close> as it was.
\<close>

theorem food_never_influences:
  "validMoves pos (board\<lparr>Food := food\<rparr>) = validMoves pos board \<and>
   makeMove r (game\<lparr>Board := (Board game)\<lparr>Food := food\<rparr>\<rparr>) = makeMove r game \<and>
   isValid c (board\<lparr>Food := food\<rparr>) = isValid c board \<and>
   isFood c (board\<lparr>Food := [c]\<rparr>) \<and> \<not> isFood c (board\<lparr>Food := []\<rparr>) \<and>
   isValid c (board\<lparr>Food := [c]\<rparr>) = isValid c (board\<lparr>Food := []\<rparr>)"
  by (simp add: validMoves_Food isValid_Food makeMove_def isFood_def)

subsection \<open>C7: directions and offsets\<close>

text \<open>
  Claim C7. \<^verbatim>\<open>validMoves\<close> tests, in this order, \<open>left\<close> at \<open>(x - 1, y)\<close>, \<open>right\<close> at
  \<open>(x + 1, y)\<close>, \<open>down\<close> at \<open>(x, y + 1)\<close> and \<open>up\<close> at \<open>(x, y - 1)\<close>, and returns the
  directions whose target is valid. On every 11 by 11 board on which \<open>(6, 5)\<close> and \<open>(5, 4)\<close>
  are body segments of snakes and neither \<open>(4, 5)\<close> nor \<open>(5, 6)\<close> is a body segment or a
  head, the safe moves from \<open>(5, 5)\<close> are exactly \<open>left\<close> and \<open>down\<close>.
\<close>

theorem direction_offsets:
  "validMoves pos board =
     map fst (filter (\<lambda>(direction, target). isValid target board)
       [(''left'', \<lparr>X = X pos - 1, Y = Y pos\<rparr>),
        (''right'', \<lparr>X = X pos + 1, Y = Y pos\<rparr>),
        (''down'', \<lparr>X = X pos, Y = Y pos + 1\<rparr>),
        (''up'', \<lparr>X = X pos, Y = Y pos - 1\<rparr>)]) \<and>
   (Height board = 11 \<longrightarrow> Width board = 11 \<longrightarrow>
    \<lparr>X = 6, Y = 5\<rparr> \<in> (\<Union>s \<in> set (Snakes board). set (Body s)) \<longrightarrow>
    \<lparr>X = 5, Y = 4\<rparr> \<in> (\<Union>s \<in> set (Snakes board). set (Body s)) \<longrightarrow>
    \<lparr>X = 4, Y = 5\<rparr> \<notin> (\<Union>s \<in> set (Snakes board). set (Body s) \<union> {Head s}) \<longrightarrow>
    \<lparr>X = 5, Y = 6\<rparr> \<notin> (\<Union>s \<in> set (Snakes board). set (Body s) \<union> {Head s}) \<longrightarrow>
    validMoves \<lparr>X = 5, Y = 5\<rparr> board = [''left'', ''down''])"
proof (intro conjI impI)
  show "validMoves pos board =
     map fst (filter (\<lambda>(direction, target). isValid target board)
       [(''left'', \<lparr>X = X pos - 1, Y = Y pos\<rparr>),
        (''right'', \<lparr>X = X pos + 1, Y = Y pos\<rparr>),
        (''down'', \<lparr>X = X pos, Y = Y pos + 1\<rparr>),
        (''up'', \<lparr>X = X pos, Y = Y pos - 1\<rparr>)])"
    by (rule validMoves_filter)
next
  assume dims: "Height board = 11" "Width board = 11"
    and r: "\<lparr>X = 6, Y = 5\<rparr> \<in> (\<Union>s \<in> set (Snakes board). set (Body s))"
    and u: "\<lparr>X = 5, Y = 4\<rparr> \<in> (\<Union>s \<in> set (Snakes board). set (Body s))"
    and l: "\<lparr>X = 4, Y = 5\<rparr> \<notin> (\<Union>s \<in> set (Snakes board). set (Body s) \<union> {Head s})"
    and d: "\<lparr>X = 5, Y = 6\<rparr> \<notin> (\<Union>s \<in> set (Snakes board). set (Body s) \<union> {Head s})"
  from r have right: "isSnake \<lparr>X = 6, Y = 5\<rparr> board" by (auto simp: isSnake_iff)
  from u have up: "isSnake \<lparr>X = 5, Y = 4\<rparr> board" by (auto simp: isSnake_iff)
  from l have left: "\<not> isSnake \<lparr>X = 4, Y = 5\<rparr> board" by (auto simp: isSnake_iff)
  from d have down: "\<not> isSnake \<lparr>X = 5, Y = 6\<rparr> board" by (auto simp: isSnake_iff)
  from dims have el: "\<not> isEdge \<lparr>X = 4, Y = 5\<rparr> board" and ed: "\<not> isEdge \<lparr>X = 5, Y = 6\<rparr> board"
    by (simp_all add: isEdge_def word_sless_alt)
  from right up left down el ed show "validMoves \<lparr>X = 5, Y = 5\<rparr> board = [''left'', ''down'']"
    by (simp add: validMoves_def isValid_def)
qed

theorem direction_offsets_witness:
  "Height scenario_C_board = 11 \<and> Width scenario_C_board = 11 \<and>
   \<lparr>X = 6, Y = 5\<rparr> \<in> set (Body opponent) \<and> \<lparr>X = 5, Y = 4\<rparr> \<in> set (Body opponent) \<and>
   opponent \<in> set (Snakes scenario_C_board) \<and>
   validMoves \<lparr>X = 5, Y = 5\<rparr> scenario_C_board = [''left'', ''down'']"
proof -
  have facts: "Height scenario_C_board = 11" "Width scenario_C_board = 11"
    "\<lparr>X = 6, Y = 5\<rparr> \<in> set (Body opponent)" "\<lparr>X = 5, Y = 4\<rparr> \<in> set (Body opponent)"
    "opponent \<in> set (Snakes scenario_C_board)"
    by (simp_all add: scenario_C_board_def opponent_def)
  have r: "\<lparr>X = 6, Y = 5\<rparr> \<in> (\<Union>s \<in> set (Snakes scenario_C_board). set (Body s))"
    and u: "\<lparr>X = 5, Y = 4\<rparr> \<in> (\<Union>s \<in> set (Snakes scenario_C_board). set (Body s))"
    and l: "\<lparr>X = 4, Y = 5\<rparr> \<notin> (\<Union>s \<in> set (Snakes scenario_C_board). set (Body s) \<union> {Head s})"
    and d: "\<lparr>X = 5, Y = 6\<rparr> \<notin> (\<Union>s \<in> set (Snakes scenario_C_board). set (Body s) \<union> {Head s})"
    by (simp_all add: scenario_C_board_def opponent_def me_def)
  have "validMoves \<lparr>X = 5, Y = 5\<rparr> scenario_C_board = [''left'', ''down'']"
    using direction_offsets [of "\<lparr>X = 5, Y = 5\<rparr>" scenario_C_board] facts(1,2) r u l d by blast
  with facts show ?thesis by simp
qed

subsection \<open>C8: what is read of the agent's own snake\<close>

text \<open>
  Claim C8. Of the \<^verbatim>\<open>You\<close> field the decision reads the head coordinate only. Two requests
  with equal boards and equal \<^verbatim>\<open>You.Head\<close> have the same safe-move list and, for the same
  outcome of the generator, the same result of \<^verbatim>\<open>makeMove\<close>, whatever their \<^verbatim>\<open>You.Body\<close>,
  health, length, turn and game data are. The agent's body blocks a cell through its
  entry among the snakes of the board and not through \<^verbatim>\<open>You\<close>.
\<close>

theorem decision_reads_only_head_of_you:
  assumes "Board g1 = Board g2" and "Head (You g1) = Head (You g2)"
  shows "validMoves (Head (You g1)) (Board g1) = validMoves (Head (You g2)) (Board g2) \<and>
         makeMove r g1 = makeMove r g2"
  using assms by (simp add: makeMove_def)

text \<open>
  The two requests of the witness differ in body, health, turn and game id. The second
  carries the segment \<open>(5, 6)\<close> below the head in \<^verbatim>\<open>You.Body\<close>, the board lists no snake,
  and \<open>down\<close> stays a safe move.
\<close>

theorem decision_reads_only_head_of_you_witness:
  "Board (unlisted_request [\<lparr>X = 5, Y = 5\<rparr>] 100 3 ''a'') =
     Board (unlisted_request [\<lparr>X = 5, Y = 5\<rparr>, \<lparr>X = 5, Y = 6\<rparr>] 40 9 ''b'') \<and>
   Head (You (unlisted_request [\<lparr>X = 5, Y = 5\<rparr>] 100 3 ''a'')) =
     Head (You (unlisted_request [\<lparr>X = 5, Y = 5\<rparr>, \<lparr>X = 5, Y = 6\<rparr>] 40 9 ''b'')) \<and>
   unlisted_request [\<lparr>X = 5, Y = 5\<rparr>] 100 3 ''a'' \<noteq>
     unlisted_request [\<lparr>X = 5, Y = 5\<rparr>, \<lparr>X = 5, Y = 6\<rparr>] 40 9 ''b'' \<and>
   validMoves (Head (You (unlisted_request [\<lparr>X = 5, Y = 5\<rparr>, \<lparr>X = 5, Y = 6\<rparr>] 40 9 ''b'')))
     (Board (unlisted_request [\<lparr>X = 5, Y = 5\<rparr>, \<lparr>X = 5, Y = 6\<rparr>] 40 9 ''b'')) =
     [''left'', ''right'', ''down'', ''up''] \<and>
   makeMove 2 (unlisted_request [\<lparr>X = 5, Y = 5\<rparr>] 100 3 ''a'') =
     Inr \<lparr>Move = ''down'', Shout = ''''\<rparr> \<and>
   makeMove 2 (unlisted_request [\<lparr>X = 5, Y = 5\<rparr>, \<lparr>X = 5, Y = 6\<rparr>] 40 9 ''b'') =
     Inr \<lparr>Move = ''down'', Shout = ''''\<rparr>"
proof -
  let ?g1 = "unlisted_request [\<lparr>X = 5, Y = 5\<rparr>] 100 3 ''a''"
  let ?g2 = "unlisted_request [\<lparr>X = 5, Y = 5\<rparr>, \<lparr>X = 5, Y = 6\<rparr>] 40 9 ''b''"
  have b: "Board ?g1 = Board ?g2" by (simp add: unlisted_request_def)
  have h: "Head (You ?g1) = Head (You ?g2)" by (simp add: unlisted_request_def me_def)
  have d: "?g1 \<noteq> ?g2" by (simp add: unlisted_request_def)
  have v: "validMoves (Head (You ?g2)) (Board ?g2) = [''left'', ''right'', ''down'', ''up'']"
    by (simp add: unlisted_request_def eval_defs)
  have m: "makeMove 2 ?g2 = Inr \<lparr>Move = ''down'', Shout = ''''\<rparr>"
    by (simp add: makeMove_def v Intn_def index_def len_def)
  from decision_reads_only_head_of_you [OF b h, of 2] b h d v m show ?thesis by simp
qed

subsection \<open>C9: the shout\<close>

text \<open>
  Claim C9. For every request the \<^verbatim>\<open>Shout\<close> field of the response returned by \<^verbatim>\<open>makeMove\<close>
  is the empty string, so the encoded response consists of the key \<^verbatim>\<open>move\<close> alone and has
  no key \<^verbatim>\<open>shout\<close>. The response of \<^verbatim>\<open>randomMove\<close> has an empty \<^verbatim>\<open>Shout\<close> as well.
\<close>

theorem shout_always_empty:
  "(\<exists>resp. makeMove r game = Inr resp \<and> MoveResponse.Shout resp = '''' \<and>
      MoveResponse_json resp = [(''move'', Move resp)] \<and>
      ''shout'' \<notin> fst ` set (MoveResponse_json resp)) \<and>
   (\<exists>resp. randomMove r = Inr resp \<and> MoveResponse.Shout resp = '''')"
proof -
  obtain resp where "makeMove r game = Inr resp" "MoveResponse.Shout resp = ''''"
    using makeMove_total [of r game] by blast
  then have "\<exists>resp. makeMove r game = Inr resp \<and> MoveResponse.Shout resp = '''' \<and>
      MoveResponse_json resp = [(''move'', Move resp)] \<and>
      ''shout'' \<notin> fst ` set (MoveResponse_json resp)"
    by (auto simp: MoveResponse_json_def)
  moreover have "\<exists>resp. randomMove r = Inr resp \<and> MoveResponse.Shout resp = ''''"
    using randomMove_result [of r] by auto
  ultimately show ?thesis by simp
qed

subsection \<open>C10: shape of the safe-move list\<close>

text \<open>
  Claim C10. For every head position and board the list returned by \<^verbatim>\<open>validMoves\<close> has no
  repeated element, has at most four elements, and is a subsequence of
  \<open>left, right, down, up\<close>: the directions present appear in that relative order.
\<close>

theorem validMoves_order:
  "distinct (validMoves pos board) \<and> length (validMoves pos board) \<le> 4 \<and>
   subseq (validMoves pos board) [''left'', ''right'', ''down'', ''up'']"
  using validMoves_distinct [of pos board] validMoves_length [of pos board]
    validMoves_subseq [of pos board]
  by (intro conjI)

end
